theory Spec2Isabelle
  imports Complex_Main "HOL-Library.AList" "HOL-Library.Word"
begin

section \<open>The database migration script \<^verbatim>\<open>migrate_db.js\<close>\<close>

text \<open>
  The script reads \<^verbatim>\<open>../db.json\<close>, parses it, maps every element of \<^verbatim>\<open>db.accounts\<close>
  to a copy without \<^verbatim>\<open>encryptedCode\<close> and with a plaintext \<^verbatim>\<open>code\<close>, and writes
  \<^verbatim>\<open>{accounts, settings}\<close> to \<^verbatim>\<open>db.json\<close>. The model below follows the script line by
  line. What the script calls but does not define (the file system, the JSON codec, the
  cipher library, the runtime's number formatting) is a field of the environment record
  \<open>env\<close>; everything the script itself does, including the language rules it relies on
  (truthiness, property reads, object rest and spread, template literals, exceptions),
  is defined here.
\<close>

subsection \<open>Values\<close>

text \<open>
  A number is an IEEE double as JavaScript sees it. The script never computes with
  numbers; it only tests them for truthiness and prints them. The two zeros are both
  falsy and print alike, so \<open>Finite 0\<close> stands for both.
\<close>

datatype number = Finite rat | PosInfinity | NegInfinity | NaN

text \<open>
  The values \<^verbatim>\<open>JSON.parse\<close> can return, and \<^verbatim>\<open>undefined\<close>, which reading an absent
  property yields. An object is the list of its own properties in property order; an
  object made by \<^verbatim>\<open>JSON.parse\<close> has no two properties with one key. Strings are lists of
  characters; the script only tests them for emptiness, concatenates and copies them.
\<close>

datatype js =
    JUndefined
  | JNull
  | JBool bool
  | JNum number
  | JStr string
  | JArr "js list"
  | JObj "(string \<times> js) list"

text \<open>Every exception the script can see is an \<^verbatim>\<open>Error\<close> object with a name and a message.\<close>

datatype exn = Exn (exn_name: string) (message: string)

definition TypeError :: "string \<Rightarrow> exn" where
  "TypeError msg = Exn ''TypeError'' msg"

text \<open>
  The console: which method was called, and with which arguments. A template literal
  is one string argument; \<^verbatim>\<open>console.error("Migration failed:", e)\<close> passes the caught
  error itself.
\<close>

datatype console_method = console_log | console_warn | console_error

datatype console_arg = Text string | Thrown exn

type_synonym console_call = "console_method \<times> console_arg list"

text \<open>
  A computation returns the console calls it made, in order, and either its value or
  the exception it raised.
\<close>

type_synonym 'a comp = "console_call list \<times> (exn + 'a)"

type_synonym word_array = "8 word list"

subsection \<open>The environment\<close>

text \<open>
  \<^item> \<open>existsSync\<close>, \<open>readFileSync\<close>, \<open>writeFileSync\<close>: Node's \<^verbatim>\<open>fs\<close> module. A read or a write
    can raise.
  \<^item> \<open>JSON_parse\<close> raises a \<^verbatim>\<open>SyntaxError\<close> on malformed text. \<open>JSON_stringify\<close> is the
    call \<^verbatim>\<open>JSON.stringify(v, null, 2)\<close>; on an object without cycles it returns a string.
  \<^item> \<open>AES_decrypt\<close> is \<^verbatim>\<open>CryptoJS.AES.decrypt(ciphertext, key)\<close>, \<open>Utf8_stringify\<close> is
    \<^verbatim>\<open>bytes.toString(CryptoJS.enc.Utf8)\<close>. Either can raise.
  \<^item> \<open>Number_toString\<close> is the runtime's conversion of a number to a string.
\<close>

record env =
  existsSync :: "string \<Rightarrow> bool"
  readFileSync :: "string \<Rightarrow> exn + string"
  writeFileSync :: "string \<Rightarrow> string \<Rightarrow> exn + unit"
  JSON_parse :: "string \<Rightarrow> exn + js"
  JSON_stringify :: "js \<Rightarrow> string"
  AES_decrypt :: "js \<Rightarrow> string \<Rightarrow> exn + word_array"
  Utf8_stringify :: "word_array \<Rightarrow> exn + string"
  Number_toString :: "number \<Rightarrow> string"

subsection \<open>Constants of the script\<close>

definition PARENT_DB_PATH :: string where
  "PARENT_DB_PATH = ''../db.json''"

definition TARGET_DB_PATH :: string where
  "TARGET_DB_PATH = ''db.json''"

definition SECRET_KEY :: string where
  "SECRET_KEY = ''F3C1A98E3D77C2159E4B1A6FD04C2B7838DA1F457E66BE9F02C91BBE6D7AF29E''"

subsection \<open>Language rules the script relies on\<close>

text \<open>Sequencing of two steps that can raise.\<close>

definition and_then :: "exn + 'a \<Rightarrow> ('a \<Rightarrow> exn + 'b) \<Rightarrow> exn + 'b" where
  "and_then r f = (case r of Inl e \<Rightarrow> Inl e | Inr x \<Rightarrow> f x)"

text \<open>\<^verbatim>\<open>if (v)\<close> and \<^verbatim>\<open>!v\<close>: the falsy values are undefined, null, false, 0, NaN and "".\<close>

fun truthy :: "js \<Rightarrow> bool" where
  "truthy JUndefined = False"
| "truthy JNull = False"
| "truthy (JBool b) = b"
| "truthy (JNum n) = (n \<noteq> Finite 0 \<and> n \<noteq> NaN)"
| "truthy (JStr s) = (s \<noteq> [])"
| "truthy (JArr xs) = True"
| "truthy (JObj kvs) = True"

text \<open>
  The property key of an array index: its decimal numeral. \<open>digit\<close> is only applied to
  numbers below 10.
\<close>

definition digit :: "nat \<Rightarrow> char" where
  "digit d = ''0123456789'' ! d"

fun index_key :: "nat \<Rightarrow> string" where
  "index_key i = (if 10 \<le> i then index_key (i div 10) @ [digit (i mod 10)] else [digit i])"

declare index_key.simps [simp del]

text \<open>
  The own enumerable properties of a value, in property order: what object rest and
  object spread copy. An array has its elements under their indices, a string its
  characters; a boolean or a number has none.
\<close>

fun own_props :: "js \<Rightarrow> (string \<times> js) list" where
  "own_props (JObj kvs) = kvs"
| "own_props (JArr xs) = zip (map index_key [0..<length xs]) xs"
| "own_props (JStr s) = zip (map index_key [0..<length s]) (map (\<lambda>c. JStr [c]) s)"
| "own_props v = []"

text \<open>
  The property read \<^verbatim>\<open>v.k\<close>. Reading a property of undefined or null raises a
  \<^verbatim>\<open>TypeError\<close>. Arrays and strings have the own property \<^verbatim>\<open>length\<close>; an absent property
  reads as undefined. The script reads the keys \<^verbatim>\<open>accounts\<close>, \<^verbatim>\<open>settings\<close>, \<^verbatim>\<open>length\<close>,
  \<^verbatim>\<open>encryptedCode\<close> and \<^verbatim>\<open>name\<close>: none of them is a property of a built-in prototype of
  these values. (\<^verbatim>\<open>map\<close> is read as part of the call in \<open>newAccounts\<close>.)
\<close>

definition lookup :: "(string \<times> js) list \<Rightarrow> string \<Rightarrow> js" where
  "lookup kvs k = (case map_of kvs k of Some x \<Rightarrow> x | None \<Rightarrow> JUndefined)"

fun get_prop :: "js \<Rightarrow> string \<Rightarrow> exn + js" where
  "get_prop JUndefined k = Inl (TypeError ''Cannot read properties of undefined'')"
| "get_prop JNull k = Inl (TypeError ''Cannot read properties of null'')"
| "get_prop (JArr xs) k =
     Inr (if k = ''length'' then JNum (Finite (of_nat (length xs)))
          else lookup (own_props (JArr xs)) k)"
| "get_prop (JStr s) k =
     Inr (if k = ''length'' then JNum (Finite (of_nat (length s)))
          else lookup (own_props (JStr s)) k)"
| "get_prop v k = Inr (lookup (own_props v) k)"

text \<open>
  The conversion of a value to a string inside a template literal. An array joins its
  elements with commas, null and undefined elements as the empty string. A plain object
  prints as \<^verbatim>\<open>[object Object]\<close>, unless it has an own property \<^verbatim>\<open>toString\<close>: after
  \<^verbatim>\<open>JSON.parse\<close> that property is not callable, the inherited \<^verbatim>\<open>valueOf\<close> (or an own,
  not callable one) yields no primitive, and the conversion raises a \<^verbatim>\<open>TypeError\<close>.
\<close>

fun to_string :: "env \<Rightarrow> js \<Rightarrow> exn + string"
  and join_elements :: "env \<Rightarrow> js list \<Rightarrow> exn + string"
where
  "to_string env JUndefined = Inr ''undefined''"
| "to_string env JNull = Inr ''null''"
| "to_string env (JBool b) = Inr (if b then ''true'' else ''false'')"
| "to_string env (JNum n) = Inr (Number_toString env n)"
| "to_string env (JStr s) = Inr s"
| "to_string env (JArr xs) = join_elements env xs"
| "to_string env (JObj kvs) =
     (if ''toString'' \<in> fst ` set kvs
      then Inl (TypeError ''Cannot convert object to primitive value'')
      else Inr ''[object Object]'')"
| "join_elements env [] = Inr []"
| "join_elements env (x # xs) =
     and_then (if x = JUndefined \<or> x = JNull then Inr [] else to_string env x) (\<lambda>s.
       if xs = [] then Inr s
       else and_then (join_elements env xs) (\<lambda>t. Inr (s @ '','' @ t)))"

subsection \<open>\<^verbatim>\<open>decrypt\<close> (lines 8 to 16)\<close>

text \<open>
  \<open>decrypt_try\<close> is the body of the \<^verbatim>\<open>try\<close> (lines 10 and 11): the two library calls.
  An exception from either is caught, its message is printed with \<^verbatim>\<open>console.error\<close>,
  and the result is null.
\<close>

definition decrypt_try :: "env \<Rightarrow> js \<Rightarrow> exn + string" where
  "decrypt_try env ciphertext =
     and_then (AES_decrypt env ciphertext SECRET_KEY) (Utf8_stringify env)"

definition decrypt :: "env \<Rightarrow> js \<Rightarrow> console_call list \<times> js" where
  "decrypt env ciphertext =
     (case decrypt_try env ciphertext of
        Inr s \<Rightarrow> ([], JStr s)
      | Inl e \<Rightarrow> ([(console_error, [Text ''Decryption error:'', Text (message e)])], JNull))"

subsection \<open>The callback of \<^verbatim>\<open>db.accounts.map\<close> (lines 29 to 47)\<close>

text \<open>
  \<^verbatim>\<open>const { encryptedCode, ...rest } = acc\<close> raises a \<^verbatim>\<open>TypeError\<close> when \<open>acc\<close> is
  undefined or null, and otherwise reads the property and copies the other own
  properties. \<^verbatim>\<open>{ ...rest, code: plainCode }\<close> copies \<open>rest\<close> and then sets \<open>code\<close>: in
  place if \<open>rest\<close> has that key, at the end otherwise.
\<close>

definition warning :: "string \<Rightarrow> console_call" where
  "warning n =
     (console_warn, [Text (''[WARN] Could not decrypt code for '' @ n @ ''. Keeping null/empty.'')])"

definition account_callback :: "env \<Rightarrow> js \<Rightarrow> js comp" where
  "account_callback env acc =
     (case get_prop acc ''encryptedCode'' of
        Inl e \<Rightarrow> ([], Inl e)
      | Inr encryptedCode \<Rightarrow>
          (let rest = AList.delete ''encryptedCode'' (own_props acc);
               (out, plainCode) =
                 (if truthy encryptedCode then decrypt env encryptedCode else ([], JNull))
           in if \<not> truthy plainCode then
                (case and_then (get_prop acc ''name'') (to_string env) of
                   Inl e \<Rightarrow> (out, Inl e)
                 | Inr n \<Rightarrow>
                     (out @ [warning n], Inr (JObj (AList.update ''code'' (JStr []) rest))))
              else (out, Inr (JObj (AList.update ''code'' plainCode rest)))))"

text \<open>
  \<^verbatim>\<open>Array.prototype.map\<close> on a parsed (dense) array: the callback runs on the elements in
  order; the first exception ends the loop and propagates.
\<close>

fun Array_map :: "(js \<Rightarrow> js comp) \<Rightarrow> js list \<Rightarrow> js list comp" where
  "Array_map f [] = ([], Inr [])"
| "Array_map f (x # xs) =
     (case f x of
        (out, Inl e) \<Rightarrow> (out, Inl e)
      | (out, Inr y) \<Rightarrow>
          (case Array_map f xs of
             (out', Inl e) \<Rightarrow> (out @ out', Inl e)
           | (out', Inr ys) \<Rightarrow> (out @ out', Inr (y # ys))))"

text \<open>
  \<^verbatim>\<open>db.accounts.map(...)\<close>: only an array has a callable \<^verbatim>\<open>map\<close>; on every other value of
  \<^verbatim>\<open>db.accounts\<close> the call raises a \<^verbatim>\<open>TypeError\<close>.
\<close>

definition newAccounts :: "env \<Rightarrow> js \<Rightarrow> js list comp" where
  "newAccounts env db =
     (case get_prop db ''accounts'' of
        Inl e \<Rightarrow> ([], Inl e)
      | Inr accounts \<Rightarrow>
          (case accounts of
             JArr xs \<Rightarrow> Array_map (account_callback env) xs
           | JUndefined \<Rightarrow> ([], Inl (TypeError ''Cannot read properties of undefined''))
           | JNull \<Rightarrow> ([], Inl (TypeError ''Cannot read properties of null''))
           | _ \<Rightarrow> ([], Inl (TypeError ''db.accounts.map is not a function''))))"

subsection \<open>From the parsed document to \<^verbatim>\<open>newDb\<close> (lines 27 to 52)\<close>

definition newDb :: "env \<Rightarrow> js \<Rightarrow> js comp" where
  "newDb env db =
     (case and_then (and_then (get_prop db ''accounts'') (\<lambda>a. get_prop a ''length''))
             (to_string env) of
        Inl e \<Rightarrow> ([], Inl e)
      | Inr n \<Rightarrow>
          (let loaded = (console_log, [Text (''Loaded DB with '' @ n @ '' accounts.'')])
           in case newAccounts env db of
                (out, Inl e) \<Rightarrow> (loaded # out, Inl e)
              | (out, Inr accs) \<Rightarrow>
                  (case get_prop db ''settings'' of
                     Inl e \<Rightarrow> (loaded # out, Inl e)
                   | Inr settings \<Rightarrow>
                       (loaded # out,
                        Inr (JObj [(''accounts'', JArr accs), (''settings'', settings)])))))"

subsection \<open>The script (lines 18 to 59)\<close>

text \<open>
  How the \<^verbatim>\<open>try\<close> block ends: \<^verbatim>\<open>process.exit\<close> ends the process at once, an exception
  goes to the \<^verbatim>\<open>catch\<close>, or the block runs to its end.
\<close>

datatype completion = Exited nat | Threw exn | Completed

record outcome =
  console :: "console_call list"
  write_calls :: "(string \<times> string) list"
  exit_code :: nat

text \<open>
  The block returns its console calls, its calls of \<^verbatim>\<open>fs.writeFileSync\<close> (path and
  content, whether or not the call then raised), and how it ended.
\<close>

definition try_block :: "env \<Rightarrow> console_call list \<times> (string \<times> string) list \<times> completion" where
  "try_block env =
     (if \<not> existsSync env PARENT_DB_PATH then
        ([(console_error, [Text (''Parent DB not found at '' @ PARENT_DB_PATH)])], [], Exited 1)
      else
        (case and_then (readFileSync env PARENT_DB_PATH) (JSON_parse env) of
           Inl e \<Rightarrow> ([], [], Threw e)
         | Inr db \<Rightarrow>
             (case newDb env db of
                (out, Inl e) \<Rightarrow> (out, [], Threw e)
              | (out, Inr doc) \<Rightarrow>
                  (let content = JSON_stringify env doc
                   in case writeFileSync env TARGET_DB_PATH content of
                        Inl e \<Rightarrow> (out, [(TARGET_DB_PATH, content)], Threw e)
                      | Inr u \<Rightarrow>
                          (out @ [(console_log,
                                   [Text (''[SUCCESS] Migrated DB saved to '' @ TARGET_DB_PATH)])],
                           [(TARGET_DB_PATH, content)], Completed)))))"

text \<open>
  The \<^verbatim>\<open>catch\<close> prints the exception and sets no exit code: the process then ends with
  status 0, as it does after a normal end of the block.
\<close>

definition migrate :: "env \<Rightarrow> outcome" where
  "migrate env =
     (case try_block env of
        (out, ws, Exited n) \<Rightarrow> \<lparr>console = out, write_calls = ws, exit_code = n\<rparr>
      | (out, ws, Threw e) \<Rightarrow>
          \<lparr>console = out @ [(console_error, [Text ''Migration failed:'', Thrown e])],
           write_calls = ws, exit_code = 0\<rparr>
      | (out, ws, Completed) \<Rightarrow> \<lparr>console = out, write_calls = ws, exit_code = 0\<rparr>)"

subsection \<open>Notions used to state the properties\<close>

text \<open>
  The text that \<^verbatim>\<open>${acc.name}\<close> yields in line 39, when reading and printing the name
  raise nothing. For an account of the data model, an object with a string \<^verbatim>\<open>name\<close>, it
  is that name; for an object without \<^verbatim>\<open>name\<close> it is \<^verbatim>\<open>undefined\<close>. It does not exist for
  null, nor for a name that is an object with a \<^verbatim>\<open>toString\<close> field.
\<close>

definition printed_name :: "env \<Rightarrow> js \<Rightarrow> string option" where
  "printed_name env acc =
     (case and_then (get_prop acc ''name'') (to_string env) of
        Inl e \<Rightarrow> None
      | Inr n \<Rightarrow> Some n)"

definition printable :: "env \<Rightarrow> js \<Rightarrow> bool" where
  "printable env acc = (printed_name env acc \<noteq> None)"

text \<open>
  An account's code can be decrypted when its \<^verbatim>\<open>encryptedCode\<close> is there (truthy, which
  for a string means not empty) and the two library calls return a string that is not
  empty.
\<close>

definition could_decrypt :: "env \<Rightarrow> js \<Rightarrow> bool" where
  "could_decrypt env acc =
     (case get_prop acc ''encryptedCode'' of
        Inl e \<Rightarrow> False
      | Inr c \<Rightarrow> truthy c \<and> (case decrypt_try env c of Inl e \<Rightarrow> False | Inr s \<Rightarrow> s \<noteq> []))"

definition is_warning :: "console_call \<Rightarrow> bool" where
  "is_warning c = (fst c = console_warn)"

subsection \<open>A concrete run\<close>

text \<open>
  Four accounts: one whose ciphertext decrypts to \<^verbatim>\<open>ABC123\<close>, one without ciphertext, one
  whose ciphertext makes the library raise, and one whose ciphertext decrypts to the
  empty string. The document also has a top-level field that is neither \<^verbatim>\<open>accounts\<close> nor
  \<^verbatim>\<open>settings\<close>.
\<close>

definition example_accounts :: "js list" where
  "example_accounts =
     [JObj [(''name'', JStr ''acct1''), (''encryptedCode'', JStr ''U2FsdGVkX18'')],
      JObj [(''name'', JStr ''acct2'')],
      JObj [(''name'', JStr ''acct3''), (''encryptedCode'', JStr ''corrupt''),
            (''level'', JNum (Finite 5))],
      JObj [(''encryptedCode'', JStr ''U2FsdGVkX19''), (''name'', JStr ''acct4'')]]"

definition example_db :: js where
  "example_db =
     JObj [(''accounts'', JArr example_accounts),
           (''settings'', JObj [(''theme'', JStr ''dark'')]),
           (''version'', JNum (Finite 2))]"

definition example_env :: env where
  "example_env =
     \<lparr>existsSync = (\<lambda>p. p = ''../db.json''),
      readFileSync =
        (\<lambda>p. if p = ''../db.json'' then Inr ''{...}'' else Inl (Exn ''Error'' ''ENOENT'')),
      writeFileSync = (\<lambda>p s. Inr ()),
      JSON_parse =
        (\<lambda>s. if s = ''{...}'' then Inr example_db
             else Inl (Exn ''SyntaxError'' ''Unexpected end of JSON input'')),
      JSON_stringify = (\<lambda>v. ''{ ... }''),
      AES_decrypt =
        (\<lambda>c k. if c = JStr ''U2FsdGVkX18'' \<and> k = SECRET_KEY then Inr [65, 66, 67, 49, 50, 51]
               else if c = JStr ''U2FsdGVkX19'' then Inr []
               else Inr [255]),
      Utf8_stringify =
        (\<lambda>w. if w = [65, 66, 67, 49, 50, 51] then Inr ''ABC123''
             else if w = [] then Inr []
             else Inl (Exn ''Error'' ''Malformed UTF-8 data'')),
      Number_toString =
        (\<lambda>n. if n = Finite 4 then ''4'' else if n = Finite 1 then ''1'' else ''NaN'')\<rparr>"

text \<open>The same environment without the source file, and with a source file that does not parse.\<close>

definition missing_env :: env where
  "missing_env = example_env\<lparr>existsSync := (\<lambda>p. False)\<rparr>"

definition malformed_env :: env where
  "malformed_env =
     example_env\<lparr>JSON_parse := (\<lambda>s. Inl (Exn ''SyntaxError'' ''Unexpected end of JSON input''))\<rparr>"

text \<open>An account that already has a \<^verbatim>\<open>code\<close> field.\<close>

definition legacy_account :: js where
  "legacy_account = JObj [(''name'', JStr ''acct5''), (''code'', JStr ''old'')]"

definition legacy_db :: js where
  "legacy_db = JObj [(''accounts'', JArr [legacy_account]), (''settings'', JObj [])]"

section \<open>Properties\<close>

subsection \<open>Property reads\<close>

lemma get_prop_Inr_other:
  "get_prop v k = Inr x \<Longrightarrow> \<exists>y. get_prop v k' = Inr y"
  by (cases v) auto

lemma get_prop_update_same:
  "get_prop (JObj (AList.update k p kvs)) k = Inr p"
  by (simp add: lookup_def update_conv')

text \<open>An account of the data model has a printed name: its name.\<close>

lemma printed_name_record:
  "map_of kvs ''name'' = Some (JStr n) \<Longrightarrow> printed_name env (JObj kvs) = Some n"
  by (simp add: printed_name_def and_then_def lookup_def)

lemma printed_name_get_prop:
  assumes "printed_name env acc = Some n" and "k \<noteq> ''length''"
  shows "get_prop acc k = Inr (lookup (own_props acc) k)"
  using assms by (cases acc) (auto simp: printed_name_def and_then_def)

lemma printed_name_to_string:
  "printed_name env acc = Some n \<Longrightarrow> and_then (get_prop acc ''name'') (to_string env) = Inr n"
  by (auto simp: printed_name_def split: sum.splits)

subsection \<open>The loop\<close>

text \<open>It returns when the callback returns on every element, and then element by element.\<close>

lemma Array_map_total:
  "list_all (\<lambda>x. \<exists>y. snd (f x) = Inr y) xs \<Longrightarrow> \<exists>ys. snd (Array_map f xs) = Inr ys"
  by (induction xs) (auto split: prod.splits sum.splits)

lemma Array_map_Inr:
  "snd (Array_map f xs) = Inr ys \<Longrightarrow> list_all2 (\<lambda>x y. snd (f x) = Inr y) xs ys"
  by (induction xs arbitrary: ys) (auto split: prod.splits sum.splits)

lemma Array_map_console:
  "snd (Array_map f xs) = Inr ys \<Longrightarrow> fst (Array_map f xs) = concat (map (\<lambda>x. fst (f x)) xs)"
  by (induction xs arbitrary: ys) (auto split: prod.splits sum.splits)

subsection \<open>The callback\<close>

text \<open>On an account with a printed name the callback never raises. Case by case:\<close>

lemma account_callback_printable:
  assumes "printed_name env acc = Some n"
  shows "account_callback env acc =
     (let c = lookup (own_props acc) ''encryptedCode'';
          rest = AList.delete ''encryptedCode'' (own_props acc);
          failed = Inr (JObj (AList.update ''code'' (JStr []) rest))
      in if truthy c then
           (case decrypt_try env c of
              Inl e \<Rightarrow>
                ([(console_error, [Text ''Decryption error:'', Text (message e)]), warning n],
                 failed)
            | Inr s \<Rightarrow>
                if s = [] then ([warning n], failed)
                else ([], Inr (JObj (AList.update ''code'' (JStr s) rest))))
         else ([warning n], failed))"
proof -
  have enc: "get_prop acc ''encryptedCode'' = Inr (lookup (own_props acc) ''encryptedCode'')"
    using assms by (rule printed_name_get_prop) simp
  show ?thesis
    by (simp add: account_callback_def enc printed_name_to_string [OF assms] decrypt_def Let_def
        split: sum.splits)
qed

lemma account_callback_total:
  "printable env acc \<Longrightarrow> \<exists>out. snd (account_callback env acc) = Inr out"
  by (auto simp: printable_def account_callback_printable Let_def split: sum.splits)

lemma callback_decrypted:
  assumes "printed_name env acc = Some n" and "get_prop acc ''encryptedCode'' = Inr c"
    and "truthy c" and "decrypt_try env c = Inr S" and "S \<noteq> []"
  shows "account_callback env acc =
         ([], Inr (JObj (AList.update ''code'' (JStr S)
                           (AList.delete ''encryptedCode'' (own_props acc)))))"
proof -
  from assms(1,2) have "lookup (own_props acc) ''encryptedCode'' = c"
    by (simp add: printed_name_get_prop)
  with assms(3-5) show ?thesis
    by (simp add: account_callback_printable [OF assms(1)])
qed

lemma callback_failed:
  assumes "printed_name env acc = Some n" and "get_prop acc ''encryptedCode'' = Inr c"
    and "\<not> truthy c \<or> (\<forall>S. decrypt_try env c = Inr S \<longrightarrow> S = [])"
  shows "snd (account_callback env acc) =
           Inr (JObj (AList.update ''code'' (JStr [])
                        (AList.delete ''encryptedCode'' (own_props acc))))"
    and "warning n \<in> set (fst (account_callback env acc))"
proof -
  from assms(1,2) have "lookup (own_props acc) ''encryptedCode'' = c"
    by (simp add: printed_name_get_prop)
  with assms(3) show
    "snd (account_callback env acc) =
       Inr (JObj (AList.update ''code'' (JStr [])
                    (AList.delete ''encryptedCode'' (own_props acc))))"
    and "warning n \<in> set (fst (account_callback env acc))"
    by (auto simp: account_callback_printable [OF assms(1)] Let_def split: sum.splits)
qed

lemma callback_shape:
  assumes "printed_name env acc = Some n"
  shows "\<exists>p. snd (account_callback env acc) =
              Inr (JObj (AList.update ''code'' (JStr p)
                           (AList.delete ''encryptedCode'' (own_props acc))))"
  by (auto simp: account_callback_printable [OF assms] Let_def split: sum.splits)

lemma account_callback_warnings:
  assumes "printed_name env acc = Some n"
  shows "filter is_warning (fst (account_callback env acc)) =
         (if could_decrypt env acc then [] else [warning n])"
proof -
  have enc: "get_prop acc ''encryptedCode'' = Inr (lookup (own_props acc) ''encryptedCode'')"
    using assms by (rule printed_name_get_prop) simp
  have w: "fst (warning n) = console_warn"
    by (simp add: warning_def)
  show ?thesis
    unfolding account_callback_printable [OF assms] could_decrypt_def
    by (simp add: enc w is_warning_def Let_def split: sum.splits)
qed

text \<open>What object rest and object spread keep.\<close>

lemma filter_update:
  "filter (\<lambda>f. fst f \<noteq> k) (AList.update k v al) = filter (\<lambda>f. fst f \<noteq> k) al"
  by (induction al) auto

lemma delete_filter:
  "AList.delete k al = filter (\<lambda>f. fst f \<noteq> k) al"
  by (induction al) auto

lemma without_code:
  "filter (\<lambda>f. fst f \<noteq> ''code'') (AList.update ''code'' v (AList.delete ''encryptedCode'' kvs)) =
   filter (\<lambda>f. fst f \<noteq> ''encryptedCode'' \<and> fst f \<noteq> ''code'') kvs"
  by (simp add: filter_update delete_filter conj_commute)

lemma no_encryptedCode:
  "''encryptedCode'' \<notin> fst ` set (AList.update ''code'' v (AList.delete ''encryptedCode'' kvs))"
  by (simp add: dom_update delete_notin_dom)

lemma name_kept:
  "lookup (AList.update ''code'' v (AList.delete ''encryptedCode'' kvs)) ''name'' =
   lookup kvs ''name''"
  by (simp add: lookup_def update_conv' delete_conv')

lemma callback_name:
  assumes "printable env acc" and "snd (account_callback env acc) = Inr y"
  shows "printed_name env y = printed_name env acc"
proof -
  from assms(1) obtain n where n: "printed_name env acc = Some n"
    by (auto simp: printable_def)
  have "get_prop acc ''name'' = Inr (lookup (own_props acc) ''name'')"
    using n by (rule printed_name_get_prop) simp
  moreover from assms(2) obtain p where
    "y = JObj (AList.update ''code'' p (AList.delete ''encryptedCode'' (own_props acc)))"
    by (auto simp: account_callback_printable [OF n] Let_def split: sum.splits if_splits)
  ultimately show ?thesis
    by (simp add: printed_name_def name_kept)
qed

lemma callbacks_names:
  "list_all (printable env) accs \<Longrightarrow>
   list_all2 (\<lambda>a y. snd (account_callback env a) = Inr y) accs outs \<Longrightarrow>
   map (printed_name env) outs = map (printed_name env) accs"
  by (induction accs arbitrary: outs) (auto simp: list_all2_Cons1 callback_name)

text \<open>The warnings among the console calls of the loop.\<close>

lemma is_warning_eq:
  "is_warning = (\<lambda>c. fst c = console_warn)"
  by (simp add: fun_eq_iff is_warning_def)

lemma warnings_concat:
  "list_all (printable env) accs \<Longrightarrow>
   filter is_warning (concat (map (\<lambda>a. fst (account_callback env a)) accs)) =
   map (\<lambda>a. warning (the (printed_name env a))) (filter (\<lambda>a. \<not> could_decrypt env a) accs)"
proof (induction accs)
  case Nil
  then show ?case by simp
next
  case (Cons a accs)
  from Cons.prems obtain n where n: "printed_name env a = Some n"
    by (auto simp: printable_def)
  from Cons show ?case
    by (simp add: account_callback_warnings [OF n] n)
qed

subsection \<open>From the parsed document to the new one\<close>

lemma newDb_accounts:
  assumes "get_prop db ''accounts'' = Inr (JArr accs)"
  shows "\<exists>loaded s. get_prop db ''settings'' = Inr s \<and> fst loaded = console_log \<and>
           newDb env db =
             (case Array_map (account_callback env) accs of
                (out, Inl e) \<Rightarrow> (loaded # out, Inl e)
              | (out, Inr outs) \<Rightarrow>
                  (loaded # out, Inr (JObj [(''accounts'', JArr outs), (''settings'', s)])))"
proof -
  from assms obtain s where s: "get_prop db ''settings'' = Inr s"
    by (blast dest: get_prop_Inr_other)
  show ?thesis
    by (simp add: newDb_def newAccounts_def assms s and_then_def Let_def
        split: prod.splits sum.splits)
qed

text \<open>Whenever a new document is produced, this is how.\<close>

lemma newDb_Inr:
  assumes "snd (newDb env db) = Inr doc"
  shows "\<exists>accs outs s. get_prop db ''accounts'' = Inr (JArr accs) \<and>
           get_prop db ''settings'' = Inr s \<and>
           doc = JObj [(''accounts'', JArr outs), (''settings'', s)] \<and>
           list_all2 (\<lambda>a y. snd (account_callback env a) = Inr y) accs outs"
proof -
  from assms obtain a where a: "get_prop db ''accounts'' = Inr a"
    by (auto simp: newDb_def and_then_def split: sum.splits)
  with assms obtain accs where accs: "a = JArr accs"
    by (cases a)
      (auto simp: newDb_def newAccounts_def and_then_def Let_def split: sum.splits prod.splits)
  from newDb_accounts [of db accs env] a accs obtain loaded s
    where s: "get_prop db ''settings'' = Inr s"
      and run: "newDb env db =
             (case Array_map (account_callback env) accs of
                (out, Inl e) \<Rightarrow> (loaded # out, Inl e)
              | (out, Inr outs) \<Rightarrow>
                  (loaded # out, Inr (JObj [(''accounts'', JArr outs), (''settings'', s)])))"
    by auto
  from run assms obtain outs where "snd (Array_map (account_callback env) accs) = Inr outs"
    and "doc = JObj [(''accounts'', JArr outs), (''settings'', s)]"
    by (auto split: prod.splits sum.splits)
  with a accs s show ?thesis
    by (auto dest: Array_map_Inr)
qed

text \<open>When every account has a printed name, a new document is produced.\<close>

lemma newDb_document:
  assumes "get_prop db ''accounts'' = Inr (JArr accs)" and "list_all (printable env) accs"
  shows "\<exists>loaded outs s.
           newDb env db =
             (loaded # concat (map (\<lambda>a. fst (account_callback env a)) accs),
              Inr (JObj [(''accounts'', JArr outs), (''settings'', s)])) \<and>
           fst loaded = console_log \<and> get_prop db ''settings'' = Inr s \<and>
           list_all2 (\<lambda>a y. snd (account_callback env a) = Inr y) accs outs"
proof -
  from assms(2) have "list_all (\<lambda>x. \<exists>y. snd (account_callback env x) = Inr y) accs"
    by (simp add: list_all_iff account_callback_total)
  then obtain outs where outs: "snd (Array_map (account_callback env) accs) = Inr outs"
    by (blast dest: Array_map_total)
  then have "Array_map (account_callback env) accs =
             (concat (map (\<lambda>a. fst (account_callback env a)) accs), Inr outs)"
    using Array_map_console [of "account_callback env" accs outs]
    by (cases "Array_map (account_callback env) accs") simp
  moreover from outs
  have "list_all2 (\<lambda>a y. snd (account_callback env a) = Inr y) accs outs"
    by (rule Array_map_Inr)
  ultimately show ?thesis
    using newDb_accounts [OF assms(1), of env] by auto
qed

lemma output_account:
  assumes "get_prop db ''accounts'' = Inr (JArr accs)" and "list_all (printable env) accs"
  shows "\<exists>doc outs. snd (newDb env db) = Inr doc \<and> get_prop doc ''accounts'' = Inr (JArr outs) \<and>
           get_prop doc ''settings'' = get_prop db ''settings'' \<and>
           map fst (own_props doc) = [''accounts'', ''settings''] \<and>
           list_all2 (\<lambda>a y. snd (account_callback env a) = Inr y) accs outs"
proof -
  from newDb_document [OF assms] obtain outs s
    where "snd (newDb env db) = Inr (JObj [(''accounts'', JArr outs), (''settings'', s)])"
      and "get_prop db ''settings'' = Inr s"
      and "list_all2 (\<lambda>a y. snd (account_callback env a) = Inr y) accs outs"
    by fastforce
  then show ?thesis
    by (simp add: lookup_def)
qed

subsection \<open>The script after a successful parse\<close>

lemma migrate_parsed:
  assumes "existsSync env PARENT_DB_PATH"
    and "readFileSync env PARENT_DB_PATH = Inr raw" and "JSON_parse env raw = Inr db"
    and "newDb env db = (out, Inr doc)"
  shows "write_calls (migrate env) = [(TARGET_DB_PATH, JSON_stringify env doc)] \<and>
         exit_code (migrate env) = 0 \<and>
         (\<exists>last. console (migrate env) = out @ [last] \<and> \<not> is_warning last)"
  using assms
  by (simp add: migrate_def try_block_def and_then_def is_warning_def Let_def split: sum.splits)

subsection \<open>The concrete run\<close>

lemma example_accounts_read:
  "get_prop example_db ''accounts'' = Inr (JArr example_accounts)"
  by (simp add: example_db_def lookup_def)

lemma example_accounts_printable:
  "list_all (printable env) example_accounts"
  by (simp add: example_accounts_def printable_def printed_name_record)

lemma example_source:
  "existsSync example_env PARENT_DB_PATH"
  "readFileSync example_env PARENT_DB_PATH = Inr ''{...}''"
  "JSON_parse example_env ''{...}'' = Inr example_db"
  by (simp_all add: example_env_def PARENT_DB_PATH_def)

section \<open>The claims\<close>

text \<open>
  In the statements below the input document \<open>db\<close> is what \<^verbatim>\<open>JSON.parse\<close> returned, its
  accounts are the elements \<open>accs\<close> of the array \<^verbatim>\<open>db.accounts\<close>, and every account has a
  printed name (as every account of the data model has). The output document \<open>doc\<close> is the
  value of \<^verbatim>\<open>newDb\<close>, which the script hands to \<^verbatim>\<open>JSON.stringify\<close> and writes; the output
  accounts \<open>outs\<close> are the elements of its \<^verbatim>\<open>accounts\<close>.
\<close>

subsection \<open>The codes\<close>

text \<open>
  C1. For every account whose \<^verbatim>\<open>encryptedCode\<close> is present and decrypts under the
  configured key to a string \<open>S\<close> that is not empty, the output account at the same index
  has the \<^verbatim>\<open>code\<close> \<open>S\<close>.
\<close>

theorem decrypted_code_in_output:
  assumes "get_prop db ''accounts'' = Inr (JArr accs)" and "list_all (printable env) accs"
    and "i < length accs"
    and "get_prop (accs ! i) ''encryptedCode'' = Inr c" and "truthy c"
    and "decrypt_try env c = Inr S" and "S \<noteq> []"
  shows "\<exists>doc outs. snd (newDb env db) = Inr doc \<and>
           get_prop doc ''accounts'' = Inr (JArr outs) \<and> length outs = length accs \<and>
           get_prop (outs ! i) ''code'' = Inr (JStr S)"
proof -
  from output_account [OF assms(1,2)] obtain doc outs
    where doc: "snd (newDb env db) = Inr doc" "get_prop doc ''accounts'' = Inr (JArr outs)"
      and all: "list_all2 (\<lambda>a y. snd (account_callback env a) = Inr y) accs outs"
    by blast
  from all have len: "length outs = length accs"
    by (simp add: list_all2_lengthD)
  from all assms(3) have out: "snd (account_callback env (accs ! i)) = Inr (outs ! i)"
    by (rule list_all2_nthD)
  from assms(2,3) obtain n where "printed_name env (accs ! i) = Some n"
    by (auto simp: list_all_length printable_def)
  from callback_decrypted [OF this assms(4-7)] out
  have "outs ! i = JObj (AList.update ''code'' (JStr S)
                           (AList.delete ''encryptedCode'' (own_props (accs ! i))))"
    by simp
  then have "get_prop (outs ! i) ''code'' = Inr (JStr S)"
    by (simp only: get_prop_update_same)
  with doc len show ?thesis
    by blast
qed

theorem decrypted_code_in_output_witness:
  "get_prop example_db ''accounts'' = Inr (JArr example_accounts) \<and>
   list_all (printable example_env) example_accounts \<and>
   0 < length example_accounts \<and>
   get_prop (example_accounts ! 0) ''encryptedCode'' = Inr (JStr ''U2FsdGVkX18'') \<and>
   truthy (JStr ''U2FsdGVkX18'') \<and>
   decrypt_try example_env (JStr ''U2FsdGVkX18'') = Inr ''ABC123'' \<and>
   (\<exists>doc outs. snd (newDb example_env example_db) = Inr doc \<and>
      get_prop doc ''accounts'' = Inr (JArr outs) \<and> length outs = length example_accounts \<and>
      get_prop (outs ! 0) ''code'' = Inr (JStr ''ABC123''))"
proof -
  have i: "0 < length example_accounts"
    by (simp add: example_accounts_def)
  have c: "get_prop (example_accounts ! 0) ''encryptedCode'' = Inr (JStr ''U2FsdGVkX18'')"
    by (simp add: example_accounts_def lookup_def)
  have t: "truthy (JStr ''U2FsdGVkX18'')"
    by simp
  have d: "decrypt_try example_env (JStr ''U2FsdGVkX18'') = Inr ''ABC123''"
    by (simp add: decrypt_try_def example_env_def and_then_def)
  have n: "''ABC123'' \<noteq> []"
    by simp
  from decrypted_code_in_output [OF example_accounts_read example_accounts_printable i c t d n]
  show ?thesis
    using example_accounts_read example_accounts_printable i c t d by blast
qed

text \<open>
  C5. For every account that has no \<^verbatim>\<open>encryptedCode\<close> (the field is absent, so that it
  reads as undefined, or null, or the empty string), the output account at the same
  index has the empty string as its \<^verbatim>\<open>code\<close>.
\<close>

theorem absent_code_is_empty:
  assumes "get_prop db ''accounts'' = Inr (JArr accs)" and "list_all (printable env) accs"
    and "i < length accs"
    and "get_prop (accs ! i) ''encryptedCode'' = Inr c"
    and "c = JUndefined \<or> c = JNull \<or> c = JStr []"
  shows "\<exists>doc outs. snd (newDb env db) = Inr doc \<and>
           get_prop doc ''accounts'' = Inr (JArr outs) \<and> length outs = length accs \<and>
           get_prop (outs ! i) ''code'' = Inr (JStr [])"
proof -
  from output_account [OF assms(1,2)] obtain doc outs
    where doc: "snd (newDb env db) = Inr doc" "get_prop doc ''accounts'' = Inr (JArr outs)"
      and all: "list_all2 (\<lambda>a y. snd (account_callback env a) = Inr y) accs outs"
    by blast
  from all have len: "length outs = length accs"
    by (simp add: list_all2_lengthD)
  from all assms(3) have out: "snd (account_callback env (accs ! i)) = Inr (outs ! i)"
    by (rule list_all2_nthD)
  from assms(2,3) obtain n where n: "printed_name env (accs ! i) = Some n"
    by (auto simp: list_all_length printable_def)
  from assms(5) have "\<not> truthy c \<or> (\<forall>S. decrypt_try env c = Inr S \<longrightarrow> S = [])"
    by auto
  from callback_failed(1) [OF n assms(4) this] out
  have "outs ! i = JObj (AList.update ''code'' (JStr [])
                           (AList.delete ''encryptedCode'' (own_props (accs ! i))))"
    by simp
  then have "get_prop (outs ! i) ''code'' = Inr (JStr [])"
    by (simp only: get_prop_update_same)
  with doc len show ?thesis
    by blast
qed

theorem absent_code_is_empty_witness:
  "get_prop example_db ''accounts'' = Inr (JArr example_accounts) \<and>
   list_all (printable example_env) example_accounts \<and>
   1 < length example_accounts \<and>
   get_prop (example_accounts ! 1) ''encryptedCode'' = Inr JUndefined \<and>
   (\<exists>doc outs. snd (newDb example_env example_db) = Inr doc \<and>
      get_prop doc ''accounts'' = Inr (JArr outs) \<and> length outs = length example_accounts \<and>
      get_prop (outs ! 1) ''code'' = Inr (JStr []))"
proof -
  have i: "1 < length example_accounts"
    by (simp add: example_accounts_def)
  have c: "get_prop (example_accounts ! 1) ''encryptedCode'' = Inr JUndefined"
    by (simp add: example_accounts_def lookup_def)
  have "JUndefined = JUndefined \<or> JUndefined = JNull \<or> JUndefined = JStr []"
    by simp
  from absent_code_is_empty [OF example_accounts_read example_accounts_printable i c this]
  show ?thesis
    using example_accounts_read example_accounts_printable i c by blast
qed

text \<open>
  C4. For every account whose \<^verbatim>\<open>encryptedCode\<close> is present but does not decrypt (the
  library raises, or returns the empty string), the run goes on to its end: the script
  writes a document that has an output account for every input account, the output
  account at the index of the failed one has the empty string as its \<^verbatim>\<open>code\<close>, and the
  console has a \<^verbatim>\<open>console.warn\<close> line whose text is
  \<^verbatim>\<open>[WARN] Could not decrypt code for \<close>, the name of that account, and
  \<^verbatim>\<open>. Keeping null/empty.\<close>
\<close>

theorem failed_decryption_does_not_abort:
  assumes "existsSync env PARENT_DB_PATH"
    and "readFileSync env PARENT_DB_PATH = Inr raw" and "JSON_parse env raw = Inr db"
    and "get_prop db ''accounts'' = Inr (JArr accs)" and "list_all (printable env) accs"
    and "i < length accs" and "printed_name env (accs ! i) = Some n"
    and "get_prop (accs ! i) ''encryptedCode'' = Inr c" and "truthy c"
    and "decrypt_try env c = Inl e \<or> decrypt_try env c = Inr []"
  shows "\<exists>doc outs. write_calls (migrate env) = [(TARGET_DB_PATH, JSON_stringify env doc)] \<and>
           get_prop doc ''accounts'' = Inr (JArr outs) \<and>
           list_all2 (\<lambda>a y. snd (account_callback env a) = Inr y) accs outs \<and>
           get_prop (outs ! i) ''code'' = Inr (JStr []) \<and>
           (console_warn,
            [Text (''[WARN] Could not decrypt code for '' @ n @ ''. Keeping null/empty.'')])
             \<in> set (console (migrate env))"
proof -
  from newDb_document [OF assms(4,5)] obtain loaded outs s
    where run: "newDb env db =
                  (loaded # concat (map (\<lambda>a. fst (account_callback env a)) accs),
                   Inr (JObj [(''accounts'', JArr outs), (''settings'', s)]))"
      and all: "list_all2 (\<lambda>a y. snd (account_callback env a) = Inr y) accs outs"
    by blast
  let ?doc = "JObj [(''accounts'', JArr outs), (''settings'', s)]"
  from migrate_parsed [OF assms(1-3) run] obtain last
    where written: "write_calls (migrate env) = [(TARGET_DB_PATH, JSON_stringify env ?doc)]"
      and con: "console (migrate env) =
                  (loaded # concat (map (\<lambda>a. fst (account_callback env a)) accs)) @ [last]"
    by blast
  have accounts: "get_prop ?doc ''accounts'' = Inr (JArr outs)"
    by (simp add: lookup_def)
  from all assms(6) have out: "snd (account_callback env (accs ! i)) = Inr (outs ! i)"
    by (rule list_all2_nthD)
  from assms(10) have failed: "\<not> truthy c \<or> (\<forall>S. decrypt_try env c = Inr S \<longrightarrow> S = [])"
    by auto
  from callback_failed(1) [OF assms(7,8) failed] out
  have "outs ! i = JObj (AList.update ''code'' (JStr [])
                           (AList.delete ''encryptedCode'' (own_props (accs ! i))))"
    by simp
  then have code: "get_prop (outs ! i) ''code'' = Inr (JStr [])"
    by (simp only: get_prop_update_same)
  from assms(6) have "accs ! i \<in> set accs"
    by simp
  with callback_failed(2) [OF assms(7,8) failed]
  have "warning n \<in> set (concat (map (\<lambda>a. fst (account_callback env a)) accs))"
    by auto
  with con have "warning n \<in> set (console (migrate env))"
    by simp
  then have line:
    "(console_warn,
      [Text (''[WARN] Could not decrypt code for '' @ n @ ''. Keeping null/empty.'')])
       \<in> set (console (migrate env))"
    by (simp only: warning_def)
  from written accounts all code line show ?thesis
    by blast
qed

theorem failed_decryption_does_not_abort_witness:
  "existsSync example_env PARENT_DB_PATH \<and>
   readFileSync example_env PARENT_DB_PATH = Inr ''{...}'' \<and>
   JSON_parse example_env ''{...}'' = Inr example_db \<and>
   get_prop example_db ''accounts'' = Inr (JArr example_accounts) \<and>
   list_all (printable example_env) example_accounts \<and>
   2 < length example_accounts \<and> printed_name example_env (example_accounts ! 2) = Some ''acct3'' \<and>
   get_prop (example_accounts ! 2) ''encryptedCode'' = Inr (JStr ''corrupt'') \<and>
   truthy (JStr ''corrupt'') \<and>
   decrypt_try example_env (JStr ''corrupt'') = Inl (Exn ''Error'' ''Malformed UTF-8 data'') \<and>
   (\<exists>doc outs.
      write_calls (migrate example_env) = [(TARGET_DB_PATH, JSON_stringify example_env doc)] \<and>
      get_prop doc ''accounts'' = Inr (JArr outs) \<and>
      list_all2 (\<lambda>a y. snd (account_callback example_env a) = Inr y) example_accounts outs \<and>
      get_prop (outs ! 2) ''code'' = Inr (JStr []) \<and>
      (console_warn, [Text ''[WARN] Could not decrypt code for acct3. Keeping null/empty.''])
        \<in> set (console (migrate example_env)))"
proof -
  have i: "2 < length example_accounts"
    by (simp add: example_accounts_def)
  have n: "printed_name example_env (example_accounts ! 2) = Some ''acct3''"
    by (simp add: example_accounts_def printed_name_record)
  have c: "get_prop (example_accounts ! 2) ''encryptedCode'' = Inr (JStr ''corrupt'')"
    by (simp add: example_accounts_def lookup_def)
  have t: "truthy (JStr ''corrupt'')"
    by simp
  have d: "decrypt_try example_env (JStr ''corrupt'') = Inl (Exn ''Error'' ''Malformed UTF-8 data'')"
    by (simp add: decrypt_try_def example_env_def and_then_def)
  then have d': "decrypt_try example_env (JStr ''corrupt'') = Inl (Exn ''Error'' ''Malformed UTF-8 data'')
      \<or> decrypt_try example_env (JStr ''corrupt'') = Inr []"
    by simp
  have l: "''[WARN] Could not decrypt code for '' @ ''acct3'' @ ''. Keeping null/empty.'' =
           ''[WARN] Could not decrypt code for acct3. Keeping null/empty.''"
    by simp
  from failed_decryption_does_not_abort
    [OF example_source example_accounts_read example_accounts_printable i n c t d']
  show ?thesis
    unfolding l
    using example_source example_accounts_read example_accounts_printable i n c t d by blast
qed

subsection \<open>The frame\<close>

text \<open>
  C2. For every input document the output document has as many accounts as the input,
  and the output account at each index is what the callback made of the input account
  at that index; in particular the names come in the same order.
\<close>

theorem accounts_same_number_same_order:
  assumes "get_prop db ''accounts'' = Inr (JArr accs)" and "list_all (printable env) accs"
  shows "\<exists>doc outs. snd (newDb env db) = Inr doc \<and>
           get_prop doc ''accounts'' = Inr (JArr outs) \<and> length outs = length accs \<and>
           list_all2 (\<lambda>a y. snd (account_callback env a) = Inr y) accs outs \<and>
           map (printed_name env) outs = map (printed_name env) accs"
proof -
  from output_account [OF assms] obtain doc outs
    where doc: "snd (newDb env db) = Inr doc" "get_prop doc ''accounts'' = Inr (JArr outs)"
      and all: "list_all2 (\<lambda>a y. snd (account_callback env a) = Inr y) accs outs"
    by blast
  from all have "length outs = length accs"
    by (simp add: list_all2_lengthD)
  moreover from assms(2) all have "map (printed_name env) outs = map (printed_name env) accs"
    by (rule callbacks_names)
  ultimately show ?thesis
    using doc all by blast
qed

theorem accounts_same_number_same_order_witness:
  "get_prop example_db ''accounts'' = Inr (JArr example_accounts) \<and>
   list_all (printable example_env) example_accounts \<and>
   (\<exists>doc outs. snd (newDb example_env example_db) = Inr doc \<and>
      get_prop doc ''accounts'' = Inr (JArr outs) \<and> length outs = length example_accounts \<and>
      list_all2 (\<lambda>a y. snd (account_callback example_env a) = Inr y) example_accounts outs \<and>
      map (printed_name example_env) outs = map (printed_name example_env) example_accounts)"
  using accounts_same_number_same_order [OF example_accounts_read example_accounts_printable]
    example_accounts_read example_accounts_printable
  by blast

text \<open>
  C3, as stated, fails: a field of the input account whose key is \<^verbatim>\<open>code\<close> is not
  \<^verbatim>\<open>encryptedCode\<close>, and the output account does not have it with the same value. Here
  the input account has the \<^verbatim>\<open>code\<close> \<^verbatim>\<open>old\<close> and no \<^verbatim>\<open>encryptedCode\<close>, and the output account
  has the empty string as its \<^verbatim>\<open>code\<close>.
\<close>

theorem code_field_overwritten:
  "''code'' \<noteq> ''encryptedCode'' \<and>
   get_prop legacy_db ''accounts'' = Inr (JArr [legacy_account]) \<and>
   get_prop legacy_account ''code'' = Inr (JStr ''old'') \<and>
   snd (newDb example_env legacy_db) =
     Inr (JObj [(''accounts'', JArr [JObj [(''name'', JStr ''acct5''), (''code'', JStr [])]]),
                (''settings'', JObj [])])"
  by (simp add: legacy_db_def legacy_account_def newDb_def newAccounts_def account_callback_def
      and_then_def lookup_def example_env_def)

text \<open>
  C3, amended. For every input account, the fields of the output account other than
  \<^verbatim>\<open>code\<close> are the fields of the input account other than \<^verbatim>\<open>encryptedCode\<close> and \<^verbatim>\<open>code\<close>,
  with the same values, in the same order; the output account has no \<^verbatim>\<open>encryptedCode\<close>,
  and it has a \<^verbatim>\<open>code\<close> that is a string.
\<close>

theorem other_fields_preserved:
  assumes "get_prop db ''accounts'' = Inr (JArr accs)" and "list_all (printable env) accs"
    and "i < length accs"
  shows "\<exists>doc outs. snd (newDb env db) = Inr doc \<and>
           get_prop doc ''accounts'' = Inr (JArr outs) \<and> length outs = length accs \<and>
           filter (\<lambda>f. fst f \<noteq> ''code'') (own_props (outs ! i)) =
             filter (\<lambda>f. fst f \<noteq> ''encryptedCode'' \<and> fst f \<noteq> ''code'') (own_props (accs ! i)) \<and>
           ''encryptedCode'' \<notin> fst ` set (own_props (outs ! i)) \<and>
           (\<exists>p. get_prop (outs ! i) ''code'' = Inr (JStr p))"
proof -
  from output_account [OF assms(1,2)] obtain doc outs
    where doc: "snd (newDb env db) = Inr doc" "get_prop doc ''accounts'' = Inr (JArr outs)"
      and all: "list_all2 (\<lambda>a y. snd (account_callback env a) = Inr y) accs outs"
    by blast
  from all have len: "length outs = length accs"
    by (simp add: list_all2_lengthD)
  from all assms(3) have out: "snd (account_callback env (accs ! i)) = Inr (outs ! i)"
    by (rule list_all2_nthD)
  from assms(2,3) obtain n where "printed_name env (accs ! i) = Some n"
    by (auto simp: list_all_length printable_def)
  from callback_shape [OF this] out obtain p
    where shape: "outs ! i = JObj (AList.update ''code'' (JStr p)
                     (AList.delete ''encryptedCode'' (own_props (accs ! i))))"
    by auto
  have "filter (\<lambda>f. fst f \<noteq> ''code'') (own_props (outs ! i)) =
        filter (\<lambda>f. fst f \<noteq> ''encryptedCode'' \<and> fst f \<noteq> ''code'') (own_props (accs ! i))"
    by (simp only: shape own_props.simps without_code)
  moreover have "''encryptedCode'' \<notin> fst ` set (own_props (outs ! i))"
    by (simp only: shape own_props.simps no_encryptedCode not_False_eq_True)
  moreover have "get_prop (outs ! i) ''code'' = Inr (JStr p)"
    by (simp only: shape get_prop_update_same)
  ultimately show ?thesis
    using doc len by blast
qed

theorem other_fields_preserved_witness:
  "get_prop example_db ''accounts'' = Inr (JArr example_accounts) \<and>
   list_all (printable example_env) example_accounts \<and>
   2 < length example_accounts \<and>
   (\<exists>doc outs. snd (newDb example_env example_db) = Inr doc \<and>
      get_prop doc ''accounts'' = Inr (JArr outs) \<and> length outs = length example_accounts \<and>
      filter (\<lambda>f. fst f \<noteq> ''code'') (own_props (outs ! 2)) =
        [(''name'', JStr ''acct3''), (''level'', JNum (Finite 5))] \<and>
      ''encryptedCode'' \<notin> fst ` set (own_props (outs ! 2)) \<and>
      (\<exists>p. get_prop (outs ! 2) ''code'' = Inr (JStr p)))"
proof -
  have i: "2 < length example_accounts"
    by (simp add: example_accounts_def)
  have "filter (\<lambda>f. fst f \<noteq> ''encryptedCode'' \<and> fst f \<noteq> ''code'')
          (own_props (example_accounts ! 2)) =
        [(''name'', JStr ''acct3''), (''level'', JNum (Finite 5))]"
    by (simp add: example_accounts_def)
  with other_fields_preserved [OF example_accounts_read example_accounts_printable i]
  show ?thesis
    using example_accounts_read example_accounts_printable i by auto
qed

text \<open>
  C6. For every input document, reading \<^verbatim>\<open>settings\<close> from the output document gives what
  reading it from the input document gives, whatever that value is.
\<close>

theorem settings_passed_through:
  assumes "get_prop db ''accounts'' = Inr (JArr accs)" and "list_all (printable env) accs"
  shows "\<exists>doc. snd (newDb env db) = Inr doc \<and>
           get_prop doc ''settings'' = get_prop db ''settings''"
  using output_account [OF assms] by blast

theorem settings_passed_through_witness:
  "get_prop example_db ''accounts'' = Inr (JArr example_accounts) \<and>
   list_all (printable example_env) example_accounts \<and>
   (\<exists>doc. snd (newDb example_env example_db) = Inr doc \<and>
      get_prop doc ''settings'' = Inr (JObj [(''theme'', JStr ''dark'')]))"
proof -
  have "get_prop example_db ''settings'' = Inr (JObj [(''theme'', JStr ''dark'')])"
    by (simp add: example_db_def lookup_def)
  with settings_passed_through [OF example_accounts_read example_accounts_printable]
  show ?thesis
    using example_accounts_read example_accounts_printable by auto
qed

text \<open>
  C10. For every input document, the fields of the output document are \<^verbatim>\<open>accounts\<close> and
  \<^verbatim>\<open>settings\<close> and no other: whatever else the input document has at its top level is
  not in the output.
\<close>

theorem output_has_two_fields:
  assumes "get_prop db ''accounts'' = Inr (JArr accs)" and "list_all (printable env) accs"
  shows "\<exists>doc. snd (newDb env db) = Inr doc \<and>
           map fst (own_props doc) = [''accounts'', ''settings'']"
  using output_account [OF assms] by auto

theorem output_has_two_fields_witness:
  "get_prop example_db ''accounts'' = Inr (JArr example_accounts) \<and>
   list_all (printable example_env) example_accounts \<and>
   map fst (own_props example_db) = [''accounts'', ''settings'', ''version''] \<and>
   (\<exists>doc. snd (newDb example_env example_db) = Inr doc \<and>
      map fst (own_props doc) = [''accounts'', ''settings''])"
proof -
  have "map fst (own_props example_db) = [''accounts'', ''settings'', ''version'']"
    by (simp add: example_db_def)
  with output_has_two_fields [OF example_accounts_read example_accounts_printable]
  show ?thesis
    using example_accounts_read example_accounts_printable by blast
qed

subsection \<open>The fatal paths\<close>

text \<open>
  C7. If the source file does not exist, the script prints one error line, calls
  \<^verbatim>\<open>fs.writeFileSync\<close> not at all, and the process ends with exit status 1.
\<close>

theorem missing_source_exits_1:
  assumes "\<not> existsSync env PARENT_DB_PATH"
  shows "migrate env =
         \<lparr>console = [(console_error, [Text ''Parent DB not found at ../db.json''])],
          write_calls = [], exit_code = 1\<rparr>"
  using assms by (simp add: migrate_def try_block_def PARENT_DB_PATH_def)

theorem missing_source_exits_1_witness:
  "\<not> existsSync missing_env PARENT_DB_PATH \<and>
   migrate missing_env =
     \<lparr>console = [(console_error, [Text ''Parent DB not found at ../db.json''])],
      write_calls = [], exit_code = 1\<rparr>"
  using missing_source_exits_1 [of missing_env]
  by (simp add: missing_env_def example_env_def)

text \<open>
  C8. If the source file exists and is read but does not parse, the exception of
  \<^verbatim>\<open>JSON.parse\<close> reaches the \<^verbatim>\<open>catch\<close> of the script: it is printed after
  \<^verbatim>\<open>Migration failed:\<close>, \<^verbatim>\<open>fs.writeFileSync\<close> is not called, and no exit status is set
  (the process ends with status 0).
\<close>

theorem malformed_json_no_write:
  assumes "existsSync env PARENT_DB_PATH"
    and "readFileSync env PARENT_DB_PATH = Inr raw"
    and "JSON_parse env raw = Inl e"
  shows "migrate env =
         \<lparr>console = [(console_error, [Text ''Migration failed:'', Thrown e])],
          write_calls = [], exit_code = 0\<rparr>"
  using assms by (simp add: migrate_def try_block_def and_then_def)

theorem malformed_json_no_write_witness:
  "existsSync malformed_env PARENT_DB_PATH \<and>
   readFileSync malformed_env PARENT_DB_PATH = Inr ''{...}'' \<and>
   JSON_parse malformed_env ''{...}'' = Inl (Exn ''SyntaxError'' ''Unexpected end of JSON input'') \<and>
   migrate malformed_env =
     \<lparr>console = [(console_error, [Text ''Migration failed:'',
                   Thrown (Exn ''SyntaxError'' ''Unexpected end of JSON input'')])],
      write_calls = [], exit_code = 0\<rparr>"
  using malformed_json_no_write [of malformed_env "''{...}''"
      "Exn ''SyntaxError'' ''Unexpected end of JSON input''"]
  by (simp add: malformed_env_def example_env_def PARENT_DB_PATH_def)

subsection \<open>The warnings\<close>

text \<open>
  C9. For every input document, the \<^verbatim>\<open>console.warn\<close> lines of the whole console output
  are, in the order of the accounts, exactly one line for each account whose code could
  not be decrypted, and no other line; the text of the line is
  \<^verbatim>\<open>[WARN] Could not decrypt code for \<close>, the name of that account, and
  \<^verbatim>\<open>. Keeping null/empty.\<close> This holds whether or not the final write succeeds.
\<close>

theorem one_warning_per_failed_account:
  assumes "existsSync env PARENT_DB_PATH"
    and "readFileSync env PARENT_DB_PATH = Inr raw" and "JSON_parse env raw = Inr db"
    and "get_prop db ''accounts'' = Inr (JArr accs)" and "list_all (printable env) accs"
  shows "filter (\<lambda>c. fst c = console_warn) (console (migrate env)) =
         map (\<lambda>a. (console_warn,
                   [Text (''[WARN] Could not decrypt code for '' @ the (printed_name env a) @
                          ''. Keeping null/empty.'')]))
           (filter (\<lambda>a. \<not> could_decrypt env a) accs)"
proof -
  from newDb_document [OF assms(4,5)] obtain loaded outs s
    where loaded: "fst loaded = console_log"
      and run: "newDb env db =
                  (loaded # concat (map (\<lambda>a. fst (account_callback env a)) accs),
                   Inr (JObj [(''accounts'', JArr outs), (''settings'', s)]))"
    by blast
  from migrate_parsed [OF assms(1-3) run] obtain last
    where con: "console (migrate env) =
                  (loaded # concat (map (\<lambda>a. fst (account_callback env a)) accs)) @ [last]"
      and last: "\<not> is_warning last"
    by blast
  from con last loaded warnings_concat [OF assms(5)]
  have "filter is_warning (console (migrate env)) =
        map (\<lambda>a. warning (the (printed_name env a)))
          (filter (\<lambda>a. \<not> could_decrypt env a) accs)"
    by (simp add: is_warning_def)
  then show ?thesis
    by (simp only: is_warning_eq warning_def)
qed

theorem one_warning_per_failed_account_witness:
  "existsSync example_env PARENT_DB_PATH \<and>
   readFileSync example_env PARENT_DB_PATH = Inr ''{...}'' \<and>
   JSON_parse example_env ''{...}'' = Inr example_db \<and>
   get_prop example_db ''accounts'' = Inr (JArr example_accounts) \<and>
   list_all (printable example_env) example_accounts \<and>
   filter (\<lambda>c. fst c = console_warn) (console (migrate example_env)) =
     [(console_warn, [Text ''[WARN] Could not decrypt code for acct2. Keeping null/empty.'']),
      (console_warn, [Text ''[WARN] Could not decrypt code for acct3. Keeping null/empty.'']),
      (console_warn, [Text ''[WARN] Could not decrypt code for acct4. Keeping null/empty.''])]"
proof -
  have "map (\<lambda>a. (console_warn,
                   [Text (''[WARN] Could not decrypt code for '' @
                          the (printed_name example_env a) @ ''. Keeping null/empty.'')]))
          (filter (\<lambda>a. \<not> could_decrypt example_env a) example_accounts) =
     [(console_warn, [Text ''[WARN] Could not decrypt code for acct2. Keeping null/empty.'']),
      (console_warn, [Text ''[WARN] Could not decrypt code for acct3. Keeping null/empty.'']),
      (console_warn, [Text ''[WARN] Could not decrypt code for acct4. Keeping null/empty.''])]"
    by (simp add: example_accounts_def could_decrypt_def decrypt_try_def example_env_def
        SECRET_KEY_def and_then_def lookup_def printed_name_def)
  with one_warning_per_failed_account
    [OF example_source example_accounts_read example_accounts_printable]
  show ?thesis
    using example_source example_accounts_read example_accounts_printable by simp
qed

end
